theory Spec2Isabelle
  imports Complex_Main "HOL-Library.Sublist"
begin

section \<open>torchtitan/utils.py: the data model\<close>

text \<open>
  The module is a set of helpers around a distributed runtime. Its pure functions
  (\<open>get_num_params\<close>, \<open>get_num_flop_per_token\<close>, \<open>get_peak_flops\<close>, the colour
  palettes) are embedded as HOL functions over Python's unbounded integers (\<open>int\<close>),
  strings (\<open>string\<close>) and lists. Its effectful functions (\<open>_warn_overwrite_env\<close>,
  \<open>set_pg_timeouts\<close>, \<open>init_distributed\<close>) are embedded by explicit state passing
  over a \<open>world\<close>: the process environment \<open>os.environ\<close> and the sequence of calls
  made so far to the logger, the file system and the distributed runtime. Calls into
  the runtime are recorded as events and assumed to return; what they do inside the
  runtime is not part of this module.

  Python names that start with an underscore lose it here (\<open>_warn_overwrite_env\<close> is
  \<open>warn_overwrite_env\<close>).
\<close>

subsection \<open>Python errors and built-ins\<close>

datatype py_error = ZeroDivisionError

text \<open>\<open>a // b\<close> on integers: floor division, raising on a zero divisor.\<close>

definition py_floordiv :: "int \<Rightarrow> int \<Rightarrow> py_error + int" where
  "py_floordiv a b = (if b = 0 then Inl ZeroDivisionError else Inr (a div b))"

text \<open>\<open>sum(iterable)\<close>: a left-to-right accumulation that starts from 0.\<close>

definition py_sum :: "nat list \<Rightarrow> nat" where
  "py_sum xs = foldl (+) 0 xs"

text \<open>\<open>sub in s\<close> on strings: \<open>sub\<close> occurs in \<open>s\<close> as a contiguous run of characters.\<close>

fun str_contains :: "string \<Rightarrow> string \<Rightarrow> bool" where
  "str_contains sub [] = (sub = [])"
| "str_contains sub (c # cs) = (prefix sub (c # cs) \<or> str_contains sub cs)"

text \<open>\<open>str(n)\<close> on an integer: its decimal digits, with a leading minus sign when negative.\<close>

definition digit_char :: "nat \<Rightarrow> char" where
  "digit_char d = ''0123456789'' ! d"

function str_nat :: "nat \<Rightarrow> string" where
  "str_nat n = (if n < 10 then [digit_char n] else str_nat (n div 10) @ [digit_char (n mod 10)])"
  by pat_completeness auto
termination
  by (relation "measure id") auto

declare str_nat.simps [simp del]

definition py_str_int :: "int \<Rightarrow> string" where
  "py_str_int i = (if i < 0 then CHR ''-'' # str_nat (nat (- i)) else str_nat (nat i))"

subsection \<open>Parameter counting\<close>

text \<open>
  A parameter tensor, as far as \<open>get_num_params\<close> reads it: \<open>p.numel()\<close> and
  \<open>p.requires_grad\<close>. A model is what \<open>list(model.parameters())\<close> yields.
\<close>

record parameter =
  numel :: nat
  requires_grad :: bool

definition get_num_params :: "parameter list \<Rightarrow> bool \<Rightarrow> nat" where
  "get_num_params model only_trainable =
     (let param_list = model;
          param_list = (if only_trainable then filter requires_grad param_list else param_list)
      in py_sum (map numel param_list))"

subsection \<open>FLOP estimate\<close>

record model_config =
  n_layers :: int
  n_heads :: int
  dim :: int

definition get_num_flop_per_token :: "int \<Rightarrow> model_config \<Rightarrow> int \<Rightarrow> py_error + int" where
  "get_num_flop_per_token num_params model_config seq_len =
     (case py_floordiv (dim model_config) (n_heads model_config) of
        Inl e \<Rightarrow> Inl e
      | Inr q \<Rightarrow>
          (let l = n_layers model_config; h = n_heads model_config; t = seq_len;
               flop_per_token = 6 * num_params + 12 * l * h * q * t
           in Inr flop_per_token))"

subsection \<open>Peak FLOPs\<close>

text \<open>
  The returned literals (\<open>312e12\<close> and the others) are Python floats; each is an integer
  below \<open>2 ^ 53\<close>, so the float is exactly the number written and is modelled by it.
\<close>

definition get_peak_flops :: "string \<Rightarrow> real" where
  "get_peak_flops device_name =
     (if str_contains ''A100'' device_name then 312 * 10 ^ 12
      else if str_contains ''H100'' device_name then
        (if str_contains ''NVL'' device_name then 1979 * 10 ^ 12
         else if str_contains ''PCIe'' device_name then 756 * 10 ^ 12
         else 989 * 10 ^ 12)
      else 312 * 10 ^ 12)"

subsection \<open>Colour palettes\<close>

text \<open>
  \<open>Color\<close> and \<open>NoColor\<close> are two classes with the same nine attributes. The attribute
  names form a datatype and each class is the function from a name to the attribute's
  value. \<open>"\033"\<close> is the escape character, code \<open>0x1B\<close>.
\<close>

datatype color_name = black | red | green | yellow | blue | magenta | cyan | white | reset

fun Color :: "color_name \<Rightarrow> string" where
  "Color black = CHR 0x1B # ''[30m''"
| "Color red = CHR 0x1B # ''[31m''"
| "Color green = CHR 0x1B # ''[32m''"
| "Color yellow = CHR 0x1B # ''[33m''"
| "Color blue = CHR 0x1B # ''[34m''"
| "Color magenta = CHR 0x1B # ''[35m''"
| "Color cyan = CHR 0x1B # ''[36m''"
| "Color white = CHR 0x1B # ''[37m''"
| "Color reset = CHR 0x1B # ''[39m''"

fun NoColor :: "color_name \<Rightarrow> string" where
  "NoColor black = ''''"
| "NoColor red = ''''"
| "NoColor green = ''''"
| "NoColor yellow = ''''"
| "NoColor blue = ''''"
| "NoColor magenta = ''''"
| "NoColor cyan = ''''"
| "NoColor white = ''''"
| "NoColor reset = ''''"

text \<open>
  Both classes are decorated \<open>@dataclass(frozen=True)\<close>. A class object is its
  namespace of class attributes, the dataclass fields the decorator found (the
  annotated attributes: none here, since every attribute is assigned without an
  annotation) and the \<open>frozen\<close> flag.
\<close>

record py_class =
  namespace :: "color_name \<Rightarrow> string"
  dataclass_fields :: "color_name list"
  frozen :: bool

definition Color_class :: py_class where
  "Color_class = \<lparr>namespace = Color, dataclass_fields = [], frozen = True\<rparr>"

definition NoColor_class :: py_class where
  "NoColor_class = \<lparr>namespace = NoColor, dataclass_fields = [], frozen = True\<rparr>"

datatype dataclass_error = FrozenInstanceError

text \<open>
  An instance is its own attribute dictionary. The generated \<open>__init__\<close> stores one
  entry per field, from the class default; an attribute read looks in the instance
  first and in the class namespace otherwise.
\<close>

definition new_instance :: "py_class \<Rightarrow> (color_name \<rightharpoonup> string)" where
  "new_instance cls = map_of (map (\<lambda>f. (f, namespace cls f)) (dataclass_fields cls))"

definition instance_getattr :: "py_class \<Rightarrow> (color_name \<rightharpoonup> string) \<Rightarrow> color_name \<Rightarrow> string" where
  "instance_getattr cls d name = (case d name of Some v \<Rightarrow> v | None \<Rightarrow> namespace cls name)"

text \<open>
  \<open>obj.name = value\<close> on an instance whose type is the class itself: the \<open>__setattr__\<close>
  that \<open>frozen=True\<close> generates raises; without it the instance dictionary is updated.
\<close>

definition instance_setattr ::
  "py_class \<Rightarrow> (color_name \<rightharpoonup> string) \<Rightarrow> color_name \<Rightarrow> string \<Rightarrow>
     dataclass_error + (color_name \<rightharpoonup> string)" where
  "instance_setattr cls d name value =
     (if frozen cls then Inl FrozenInstanceError else Inr (d(name \<mapsto> value)))"

text \<open>
  \<open>cls.name = value\<close> on the class object: the decorator adds nothing to the class's
  own attribute assignment, so the class attribute is rebound.
\<close>

definition class_setattr :: "py_class \<Rightarrow> color_name \<Rightarrow> string \<Rightarrow> py_class" where
  "class_setattr cls name value = cls\<lparr>namespace := (namespace cls)(name := value)\<rparr>"

subsection \<open>The process environment and the calls made to the outside\<close>

text \<open>
  \<open>timedelta(seconds=n)\<close> is the only way the module builds a timeout; otherwise a
  timeout is passed through as it was received.
\<close>

datatype timedelta = Timedelta int

text \<open>
  One event per call that leaves the module: the logger, \<open>os.environ[k] = v\<close>,
  \<open>os.makedirs(path, exist_ok=...)\<close>, and the runtime's \<open>init_process_group\<close>,
  \<open>barrier\<close>, \<open>torch.cuda.synchronize\<close> and \<open>_set_pg_timeout\<close>. A process group is of
  an arbitrary type \<open>'g\<close>; \<open>None\<close> stands for the default (world) group, as in the source.
\<close>

datatype 'g event =
    LogInfo string
  | LogWarning string
  | EnvSet string string
  | MakeDirs string bool
  | InitProcessGroup string timedelta
  | Barrier
  | CudaSynchronize
  | SetPgTimeout timedelta "'g option"

record 'g world =
  environ :: "string \<rightharpoonup> string"
  trace :: "'g event list"

definition emit :: "'g event \<Rightarrow> 'g world \<Rightarrow> 'g world" where
  "emit e w = w\<lparr>trace := trace w @ [e]\<rparr>"

definition logger_info :: "string \<Rightarrow> 'g world \<Rightarrow> 'g world" where
  "logger_info msg w = emit (LogInfo msg) w"

definition logger_warning :: "string \<Rightarrow> 'g world \<Rightarrow> 'g world" where
  "logger_warning msg w = emit (LogWarning msg) w"

text \<open>\<open>os.environ[k] = v\<close>: the mapping is updated and the write is recorded.\<close>

definition environ_setitem :: "string \<Rightarrow> string \<Rightarrow> 'g world \<Rightarrow> 'g world" where
  "environ_setitem k v w = emit (EnvSet k v) (w\<lparr>environ := (environ w)(k \<mapsto> v)\<rparr>)"

definition os_makedirs :: "string \<Rightarrow> bool \<Rightarrow> 'g world \<Rightarrow> 'g world" where
  "os_makedirs path exist_ok w = emit (MakeDirs path exist_ok) w"

definition init_process_group :: "string \<Rightarrow> timedelta \<Rightarrow> 'g world \<Rightarrow> 'g world" where
  "init_process_group backend timeout w = emit (InitProcessGroup backend timeout) w"

definition barrier :: "'g world \<Rightarrow> 'g world" where
  "barrier w = emit Barrier w"

definition cuda_synchronize :: "'g world \<Rightarrow> 'g world" where
  "cuda_synchronize w = emit CudaSynchronize w"

definition set_pg_timeout :: "timedelta \<Rightarrow> 'g option \<Rightarrow> 'g world \<Rightarrow> 'g world" where
  "set_pg_timeout timeout pg w = emit (SetPgTimeout timeout pg) w"

text \<open>The events a call added to the trace.\<close>

definition new_events :: "'g world \<Rightarrow> 'g world \<Rightarrow> 'g event list" where
  "new_events w w' = drop (length (trace w)) (trace w')"

subsection \<open>Environment overwrite guard\<close>

text \<open>The f-string of the warning; \<open>old\<close> is \<open>os.environ[env]\<close> before the write.\<close>

definition overwrite_message :: "string \<Rightarrow> string \<Rightarrow> string \<Rightarrow> string" where
  "overwrite_message env old val =
     ''ENV['' @ env @ ''] = '' @ old @ '' will be overridden to '' @ val @ '' based on job config''"

definition warn_overwrite_env :: "string \<Rightarrow> string \<Rightarrow> 'g world \<Rightarrow> 'g world" where
  "warn_overwrite_env env val w =
     (let w1 = (case environ w env of
                  None \<Rightarrow> w
                | Some old \<Rightarrow> logger_warning (overwrite_message env old val) w)
      in environ_setitem env val w1)"

subsection \<open>Timeout synchronization\<close>

text \<open>
  A \<open>DeviceMesh\<close>, as far as \<open>set_pg_timeouts\<close> reads it: one process group per mesh
  dimension. \<open>world_mesh.get_group()\<close> without an argument returns the single group of
  a one-dimensional mesh and the list of all groups otherwise; the two shapes of its
  result are the two functions \<open>get_group\<close> and \<open>get_group_all\<close>. The rendering of the
  timeout inside the log line is Python's and is the parameter \<open>fmt\<close>.
\<close>

record 'g device_mesh =
  dim_groups :: "'g list"

definition ndim :: "'g device_mesh \<Rightarrow> nat" where
  "ndim m = length (dim_groups m)"

definition get_group :: "'g device_mesh \<Rightarrow> 'g" where
  "get_group m = dim_groups m ! 0"

definition get_group_all :: "'g device_mesh \<Rightarrow> 'g list" where
  "get_group_all m = dim_groups m"

definition set_pg_timeouts ::
  "(timedelta \<Rightarrow> string) \<Rightarrow> timedelta \<Rightarrow> 'g device_mesh \<Rightarrow> 'g world \<Rightarrow> 'g world" where
  "set_pg_timeouts fmt timeout world_mesh w =
     (let w1 = logger_info
                 (''Synchronizing and adjusting timeout for all ProcessGroups to '' @ fmt timeout) w;
          w2 = barrier w1;
          w3 = cuda_synchronize w2;
          groups = (if ndim world_mesh = 1 then [Some (get_group world_mesh)]
                    else map Some (get_group_all world_mesh));
          groups = groups @ [None]
      in foldl (\<lambda>s pg. set_pg_timeout timeout pg s) w3 groups)"

subsection \<open>Distributed initialization\<close>

definition TRACE_BUFFER_SIZE :: string where
  "TRACE_BUFFER_SIZE = ''TORCH_NCCL_TRACE_BUFFER_SIZE''"

definition TRACE_FILE :: string where
  "TRACE_FILE = ''TORCH_NCCL_DEBUG_INFO_TEMP_FILE''"

definition DUMP_ON_TIMEOUT :: string where
  "DUMP_ON_TIMEOUT = ''TORCH_NCCL_DUMP_ON_TIMEOUT''"

definition ASYNC_ERROR_HANDLING :: string where
  "ASYNC_ERROR_HANDLING = ''TORCH_NCCL_ASYNC_ERROR_HANDLING''"

definition SKIP_CLEANUP :: string where
  "SKIP_CLEANUP = ''3''"

text \<open>The fields of the job configuration that \<open>init_distributed\<close> reads.\<close>

record comm_config =
  trace_buf_size :: int
  init_timeout_seconds :: int

record job_section =
  dump_folder :: string

record job_config =
  comm :: comm_config
  job :: job_section

definition init_distributed :: "job_config \<Rightarrow> 'g world \<Rightarrow> 'g world" where
  "init_distributed job_config w =
     (let w1 = warn_overwrite_env ASYNC_ERROR_HANDLING SKIP_CLEANUP w;
          w2 = warn_overwrite_env TRACE_BUFFER_SIZE
                 (py_str_int (trace_buf_size (comm job_config))) w1;
          w3 = (if trace_buf_size (comm job_config) > 0 then
                  (let w21 = warn_overwrite_env DUMP_ON_TIMEOUT ''1'' w2;
                       dump_dir = dump_folder (job job_config) @ ''/comm_trace'';
                       w22 = os_makedirs dump_dir True w21
                   in warn_overwrite_env TRACE_FILE (dump_dir @ ''/rank_'') w22)
                else w2);
          w4 = init_process_group ''nccl''
                 (Timedelta (init_timeout_seconds (comm job_config))) w3
      in environ_setitem ''TORCH_NCCL_AVOID_RECORD_STREAMS'' ''1'' w4)"

subsection \<open>Distributed scalar reduction\<close>

text \<open>
  \<open>torch.tensor(x)\<close> wraps the scalar into a zero-dimensional tensor on the CPU and
  \<open>.cuda()\<close> moves it to the accelerator. \<open>funcol.all_reduce\<close> belongs to the runtime: it
  is a parameter, taking a tensor, the name of the reduction and the group, and
  returning a tensor. A Python value returned by the helpers is either a plain scalar
  or a tensor.
\<close>

datatype device = CPU | CUDA

record 'a tensor =
  item :: 'a
  device :: device

datatype 'a py_value = PyScalar 'a | PyTensor "'a tensor"

definition torch_tensor :: "'a \<Rightarrow> 'a tensor" where
  "torch_tensor x = \<lparr>item = x, device = CPU\<rparr>"

definition cuda :: "'a tensor \<Rightarrow> 'a tensor" where
  "cuda t = t\<lparr>device := CUDA\<rparr>"

definition dist_max ::
  "('a tensor \<Rightarrow> string \<Rightarrow> 'm \<Rightarrow> 'a tensor) \<Rightarrow> 'a \<Rightarrow> 'm \<Rightarrow> 'a py_value" where
  "dist_max all_reduce x mesh =
     (let tensor = cuda (torch_tensor x) in PyTensor (all_reduce tensor ''MAX'' mesh))"

definition dist_mean ::
  "('a tensor \<Rightarrow> string \<Rightarrow> 'm \<Rightarrow> 'a tensor) \<Rightarrow> 'a \<Rightarrow> 'm \<Rightarrow> 'a py_value" where
  "dist_mean all_reduce x mesh =
     (let tensor = cuda (torch_tensor x) in PyTensor (all_reduce tensor ''AVG'' mesh))"

subsection \<open>Vocabulary for the properties\<close>

text \<open>
  The events of one call of the overwrite guard on the environment \<open>e\<close>: the write,
  preceded by the warning when the variable is set.
\<close>

definition guarded_write :: "(string \<rightharpoonup> string) \<Rightarrow> string \<Rightarrow> string \<Rightarrow> 'g event list" where
  "guarded_write e k v =
     (case e k of
        None \<Rightarrow> [EnvSet k v]
      | Some old \<Rightarrow> [LogWarning (overwrite_message k old v), EnvSet k v])"

text \<open>The number a string of decimal digits denotes.\<close>

definition decimal_value :: "string \<Rightarrow> nat" where
  "decimal_value s = foldl (\<lambda>a c. 10 * a + (of_char c - 48)) 0 s"

text \<open>The side effects among a sequence of events: everything but the log lines.\<close>

fun is_log :: "'g event \<Rightarrow> bool" where
  "is_log (LogInfo _) = True"
| "is_log (LogWarning _) = True"
| "is_log _ = False"

definition side_effects :: "'g event list \<Rightarrow> 'g event list" where
  "side_effects es = filter (\<lambda>e. \<not> is_log e) es"

section \<open>Properties of the pure helpers\<close>

subsection \<open>Built-ins\<close>

lemma py_sum_sum_list: "py_sum xs = sum_list xs"
proof -
  have "foldl (+) a xs = a + sum_list xs" for a :: nat
    by (induction xs arbitrary: a) simp_all
  then show ?thesis by (simp add: py_sum_def)
qed

lemma str_contains_sublist: "str_contains sub s \<longleftrightarrow> sublist sub s"
  by (induction s) (simp_all add: sublist_Cons_right)

text \<open>\<open>str\<close> on an integer writes its decimal digits, after a minus sign when negative.\<close>

lemma digit_char_value: "d < 10 \<Longrightarrow> of_char (digit_char d) - 48 = d"
proof -
  assume "d < 10"
  then have "d \<in> {0, 1, 2, 3, 4, 5, 6, 7, 8, 9}" by auto
  then show ?thesis by (auto simp: digit_char_def)
qed

lemma decimal_value_snoc: "decimal_value (s @ [c]) = 10 * decimal_value s + (of_char c - 48)"
  by (simp add: decimal_value_def)

lemma decimal_value_str_nat: "decimal_value (str_nat n) = n"
proof (induction n rule: str_nat.induct)
  case (1 n)
  show ?case
  proof (cases "n < 10")
    case True
    then show ?thesis
      using decimal_value_snoc [of "[]" "digit_char n"]
      by (simp add: str_nat.simps [of n] digit_char_value decimal_value_def)
  next
    case False
    then have "decimal_value (str_nat (n div 10)) = n div 10" using 1 by simp
    then show ?thesis
      using False by (simp add: str_nat.simps [of n] decimal_value_snoc digit_char_value)
  qed
qed

lemma py_str_int_nonnegative: "0 \<le> i \<Longrightarrow> int (decimal_value (py_str_int i)) = i"
  by (simp add: py_str_int_def decimal_value_str_nat)

lemma py_str_int_minus: "i < 0 \<Longrightarrow> py_str_int i = CHR ''-'' # py_str_int (- i)"
  by (simp add: py_str_int_def)

subsection \<open>FLOP estimate\<close>

text \<open>
  C6. For every parameter count, sequence length and model configuration with
  \<open>n_heads > 0\<close>, \<open>get_num_flop_per_token\<close> returns exactly
  \<open>6 * num_params + 12 * l * h * (d // h) * t\<close>. The instance named by the specification
  (1000 parameters, 2 layers, 4 heads, dimension 16, sequence length 128) follows it.
\<close>

theorem get_num_flop_per_token_formula:
  assumes "0 < n_heads cfg"
  shows "get_num_flop_per_token num_params cfg t =
           Inr (6 * num_params + 12 * n_layers cfg * n_heads cfg * (dim cfg div n_heads cfg) * t)"
  using assms by (simp add: get_num_flop_per_token_def py_floordiv_def)

theorem get_num_flop_per_token_formula_witness:
  "0 < n_heads \<lparr>n_layers = 2, n_heads = 4, dim = 16\<rparr> \<and>
   get_num_flop_per_token 1000 \<lparr>n_layers = 2, n_heads = 4, dim = 16\<rparr> 128 =
     Inr (6 * 1000 + 12 * 2 * 4 * 4 * 128)"
  using get_num_flop_per_token_formula [of "\<lparr>n_layers = 2, n_heads = 4, dim = 16\<rparr>" 1000 128]
  by simp

text \<open>
  C10. The head dimension is obtained by integer floor division. With \<open>n_heads = 0\<close> the
  division raises \<open>ZeroDivisionError\<close> and no estimate is returned; with any other head
  count the estimate uses \<open>\<lfloor>dim / n_heads\<rfloor>\<close>; and when a positive \<open>n_heads\<close> does not divide
  \<open>dim\<close>, the head dimension used is strictly below the exact quotient (and within one of
  it). Head counts are not negative, so among them the function is defined exactly when
  \<open>n_heads > 0\<close>.
\<close>

theorem get_num_flop_per_token_floor_division:
  "(n_heads cfg = 0 \<longrightarrow> get_num_flop_per_token num_params cfg t = Inl ZeroDivisionError) \<and>
   (n_heads cfg \<noteq> 0 \<longrightarrow>
      get_num_flop_per_token num_params cfg t =
        Inr (6 * num_params +
             12 * n_layers cfg * n_heads cfg *
               \<lfloor>real_of_int (dim cfg) / real_of_int (n_heads cfg)\<rfloor> * t)) \<and>
   (0 < n_heads cfg \<and> \<not> n_heads cfg dvd dim cfg \<longrightarrow>
      (\<exists>q. get_num_flop_per_token num_params cfg t =
             Inr (6 * num_params + 12 * n_layers cfg * n_heads cfg * q * t) \<and>
           real_of_int q < real_of_int (dim cfg) / real_of_int (n_heads cfg) \<and>
           real_of_int (dim cfg) / real_of_int (n_heads cfg) < real_of_int q + 1))"
proof (intro conjI impI)
  assume "n_heads cfg = 0"
  then show "get_num_flop_per_token num_params cfg t = Inl ZeroDivisionError"
    by (simp add: get_num_flop_per_token_def py_floordiv_def)
next
  assume "n_heads cfg \<noteq> 0"
  then show "get_num_flop_per_token num_params cfg t =
        Inr (6 * num_params +
             12 * n_layers cfg * n_heads cfg *
               \<lfloor>real_of_int (dim cfg) / real_of_int (n_heads cfg)\<rfloor> * t)"
    by (simp add: get_num_flop_per_token_def py_floordiv_def floor_divide_of_int_eq)
next
  assume h: "0 < n_heads cfg \<and> \<not> n_heads cfg dvd dim cfg"
  let ?q = "dim cfg div n_heads cfg"
  have r: "get_num_flop_per_token num_params cfg t =
             Inr (6 * num_params + 12 * n_layers cfg * n_heads cfg * ?q * t)"
    using h by (simp add: get_num_flop_per_token_def py_floordiv_def)
  have m: "0 < dim cfg mod n_heads cfg" "dim cfg mod n_heads cfg < n_heads cfg"
  proof -
    have "0 \<le> dim cfg mod n_heads cfg" using h by simp
    moreover have "dim cfg mod n_heads cfg \<noteq> 0" using h by (simp add: dvd_eq_mod_eq_0)
    ultimately show "0 < dim cfg mod n_heads cfg" by linarith
    show "dim cfg mod n_heads cfg < n_heads cfg" using h by simp
  qed
  have d: "dim cfg = n_heads cfg * ?q + dim cfg mod n_heads cfg"
    by simp
  have lo: "n_heads cfg * ?q < dim cfg" using m d by linarith
  have "n_heads cfg * (?q + 1) = n_heads cfg * ?q + n_heads cfg"
    by (simp add: algebra_simps)
  then have hi: "dim cfg < n_heads cfg * (?q + 1)" using m d by linarith
  have hp: "0 < real_of_int (n_heads cfg)" using h by simp
  have lo': "real_of_int ?q * real_of_int (n_heads cfg) < real_of_int (dim cfg)"
    using lo by (metis of_int_less_iff of_int_mult mult.commute)
  have hi': "real_of_int (dim cfg) < (real_of_int ?q + 1) * real_of_int (n_heads cfg)"
    using hi by (metis of_int_less_iff of_int_mult of_int_add of_int_1 mult.commute)
  have "real_of_int ?q < real_of_int (dim cfg) / real_of_int (n_heads cfg)"
    using lo' hp by (simp only: pos_less_divide_eq)
  moreover have "real_of_int (dim cfg) / real_of_int (n_heads cfg) < real_of_int ?q + 1"
    using hi' hp by (simp only: pos_divide_less_eq)
  ultimately show "\<exists>q. get_num_flop_per_token num_params cfg t =
             Inr (6 * num_params + 12 * n_layers cfg * n_heads cfg * q * t) \<and>
           real_of_int q < real_of_int (dim cfg) / real_of_int (n_heads cfg) \<and>
           real_of_int (dim cfg) / real_of_int (n_heads cfg) < real_of_int q + 1"
    using r by blast
qed

theorem get_num_flop_per_token_floor_division_witness:
  "n_heads \<lparr>n_layers = 2, n_heads = 0, dim = 16\<rparr> = 0 \<and>
   get_num_flop_per_token 1000 \<lparr>n_layers = 2, n_heads = 0, dim = 16\<rparr> 128 =
     Inl ZeroDivisionError \<and>
   n_heads \<lparr>n_layers = 2, n_heads = 4, dim = 18\<rparr> \<noteq> 0 \<and>
   0 < n_heads \<lparr>n_layers = 2, n_heads = 4, dim = 18\<rparr> \<and>
   \<not> n_heads \<lparr>n_layers = 2, n_heads = 4, dim = 18\<rparr> dvd dim \<lparr>n_layers = 2, n_heads = 4, dim = 18\<rparr> \<and>
   get_num_flop_per_token 1000 \<lparr>n_layers = 2, n_heads = 4, dim = 18\<rparr> 128 =
     Inr (6 * 1000 + 12 * 2 * 4 * 4 * 128) \<and>
   (\<exists>q. get_num_flop_per_token 1000 \<lparr>n_layers = 2, n_heads = 4, dim = 18\<rparr> 128 =
          Inr (6 * 1000 + 12 * 2 * 4 * q * 128) \<and>
        real_of_int q < 18 / 4 \<and> 18 / 4 < real_of_int q + 1)"
  using get_num_flop_per_token_floor_division [of "\<lparr>n_layers = 2, n_heads = 0, dim = 16\<rparr>" 1000 128]
    get_num_flop_per_token_floor_division [of "\<lparr>n_layers = 2, n_heads = 4, dim = 18\<rparr>" 1000 128]
  by simp

subsection \<open>Parameter counting\<close>

lemma sum_list_requires_grad_split:
  "sum_list (map numel (filter requires_grad ps)) +
   sum_list (map numel (filter (\<lambda>p. \<not> requires_grad p) ps)) = sum_list (map numel ps)"
  by (induction ps) simp_all

text \<open>
  C8. \<open>get_num_params\<close> is a pure function of the parameter sequence. Without the filter
  it returns the sum of all element counts; with \<open>only_trainable\<close> it returns the sum of
  the element counts of exactly the parameters whose \<open>requires_grad\<close> is set, so the two
  counts differ by the elements of the frozen parameters. For sizes 10, 20, 5 with the
  third frozen the counts are 35 and 30.
\<close>

theorem get_num_params_sums:
  "get_num_params model False = sum_list (map numel model) \<and>
   get_num_params model True = sum_list (map numel (filter requires_grad model)) \<and>
   get_num_params model True + sum_list (map numel (filter (\<lambda>p. \<not> requires_grad p) model)) =
     get_num_params model False \<and>
   get_num_params
     [\<lparr>numel = 10, requires_grad = True\<rparr>, \<lparr>numel = 20, requires_grad = True\<rparr>,
      \<lparr>numel = 5, requires_grad = False\<rparr>] False = 35 \<and>
   get_num_params
     [\<lparr>numel = 10, requires_grad = True\<rparr>, \<lparr>numel = 20, requires_grad = True\<rparr>,
      \<lparr>numel = 5, requires_grad = False\<rparr>] True = 30"
proof -
  have all: "get_num_params m False = sum_list (map numel m)" for m
    by (simp add: get_num_params_def py_sum_sum_list)
  have trainable: "get_num_params m True = sum_list (map numel (filter requires_grad m))" for m
    by (simp add: get_num_params_def py_sum_sum_list)
  show ?thesis
    by (simp add: all trainable sum_list_requires_grad_split)
qed

subsection \<open>Peak FLOPs\<close>

text \<open>
  C7. \<open>get_peak_flops\<close> returns a constant for every device name, chosen by the first
  row that applies: a name containing \<open>A100\<close> gives 312e12; otherwise a name containing
  \<open>H100\<close> gives 1979e12 if it also contains \<open>NVL\<close>, else 756e12 if it contains \<open>PCIe\<close>,
  else 989e12; every other name gives 312e12. Containment is the occurrence of the
  word as a contiguous part of the name (\<open>sublist\<close>).
\<close>

theorem get_peak_flops_table:
  "get_peak_flops device_name =
     (if sublist ''A100'' device_name then 312 * 10 ^ 12
      else if sublist ''H100'' device_name \<and> sublist ''NVL'' device_name then 1979 * 10 ^ 12
      else if sublist ''H100'' device_name \<and> sublist ''PCIe'' device_name then 756 * 10 ^ 12
      else if sublist ''H100'' device_name then 989 * 10 ^ 12
      else 312 * 10 ^ 12)"
  by (simp add: get_peak_flops_def str_contains_sublist)

theorem get_peak_flops_table_witness:
  "get_peak_flops ''A100'' = 312 * 10 ^ 12 \<and>
   get_peak_flops ''H100 SXM'' = 989 * 10 ^ 12 \<and>
   get_peak_flops ''H100 NVL'' = 1979 * 10 ^ 12 \<and>
   get_peak_flops ''H100 PCIe'' = 756 * 10 ^ 12 \<and>
   get_peak_flops ''unknown-device'' = 312 * 10 ^ 12"
  using get_peak_flops_table [of "''A100''"] get_peak_flops_table [of "''H100 SXM''"]
    get_peak_flops_table [of "''H100 NVL''"] get_peak_flops_table [of "''H100 PCIe''"]
    get_peak_flops_table [of "''unknown-device''"]
  by (simp add: sublist_code)

subsection \<open>Colour palettes\<close>

lemma color_name_UNIV:
  "(UNIV :: color_name set) = {black, red, green, yellow, blue, magenta, cyan, white, reset}"
proof -
  have "c \<in> {black, red, green, yellow, blue, magenta, cyan, white, reset}" for c
    by (cases c) simp_all
  then show ?thesis by blast
qed

text \<open>
  C9, as amended. There are exactly nine colour names. For each of them \<open>NoColor\<close> gives
  the empty string and \<open>Color\<close> gives a non-empty string whose first character is the
  escape character \<open>0x1B\<close>; an instance of either class reads these values. Both classes
  are frozen on their instances: assigning to an attribute of an instance raises
  \<open>FrozenInstanceError\<close>.
\<close>

theorem palettes:
  "(UNIV :: color_name set) = {black, red, green, yellow, blue, magenta, cyan, white, reset} \<and>
   card (UNIV :: color_name set) = 9 \<and>
   (\<forall>c. NoColor c = '''' \<and> Color c \<noteq> '''' \<and> (\<exists>rest. Color c = CHR 0x1B # rest)) \<and>
   (\<forall>c. instance_getattr Color_class (new_instance Color_class) c = Color c \<and>
        instance_getattr NoColor_class (new_instance NoColor_class) c = NoColor c) \<and>
   (\<forall>d c v. instance_setattr Color_class d c v = Inl FrozenInstanceError \<and>
            instance_setattr NoColor_class d c v = Inl FrozenInstanceError)"
proof (intro conjI allI)
  show "(UNIV :: color_name set) = {black, red, green, yellow, blue, magenta, cyan, white, reset}"
    by (rule color_name_UNIV)
  show "card (UNIV :: color_name set) = 9"
    by (simp add: color_name_UNIV)
next
  fix c
  show "NoColor c = ''''" by (cases c) simp_all
  show "Color c \<noteq> ''''" by (cases c) simp_all
  show "\<exists>rest. Color c = CHR 0x1B # rest" by (cases c) simp_all
  show "instance_getattr Color_class (new_instance Color_class) c = Color c"
    by (simp add: instance_getattr_def new_instance_def Color_class_def)
  show "instance_getattr NoColor_class (new_instance NoColor_class) c = NoColor c"
    by (simp add: instance_getattr_def new_instance_def NoColor_class_def)
next
  fix d c v
  show "instance_setattr Color_class d c v = Inl FrozenInstanceError"
    by (simp add: instance_setattr_def Color_class_def)
  show "instance_setattr NoColor_class d c v = Inl FrozenInstanceError"
    by (simp add: instance_setattr_def NoColor_class_def)
qed

text \<open>
  C9 as stated fails: the palettes are not immutable. Assigning to an attribute of the
  class object \<open>Color\<close> succeeds and changes the mapping, also as read through an
  instance.
\<close>

theorem palette_class_rebinding_counterexample:
  "namespace Color_class black = CHR 0x1B # ''[30m'' \<and>
   namespace (class_setattr Color_class black ''X'') black = ''X'' \<and>
   instance_getattr (class_setattr Color_class black ''X'') (new_instance Color_class) black = ''X''"
  by (simp add: class_setattr_def Color_class_def instance_getattr_def new_instance_def)

section \<open>Properties of the effectful helpers\<close>

subsection \<open>Events and the environment\<close>

lemma py_str_int_0: "py_str_int 0 = ''0''"
  by (simp add: py_str_int_def str_nat.simps digit_char_def)

lemma py_str_int_20000: "py_str_int 20000 = ''20000''"
  by (simp add: py_str_int_def str_nat.simps digit_char_def)

lemma py_str_int_negative: "py_str_int (- 15) = ''-15''"
  by (simp add: py_str_int_def str_nat.simps digit_char_def)

lemma trace_emit [simp]: "trace (emit e w) = trace w @ [e]"
  by (simp add: emit_def)

lemma environ_emit [simp]: "environ (emit e w) = environ w"
  by (simp add: emit_def)

lemma warn_overwrite_env_trace:
  "trace (warn_overwrite_env env val w) = trace w @ guarded_write (environ w) env val"
  by (simp add: warn_overwrite_env_def guarded_write_def environ_setitem_def logger_warning_def
      split: option.split)

lemma warn_overwrite_env_environ:
  "environ (warn_overwrite_env env val w) = (environ w)(env \<mapsto> val)"
  by (simp add: warn_overwrite_env_def environ_setitem_def logger_warning_def
      split: option.split)

subsection \<open>Environment overwrite guard\<close>

text \<open>
  C1, as amended. \<open>_warn_overwrite_env(env, val)\<close> logs one warning, naming the old and
  the new value, exactly when \<open>env\<close> is already set in the environment, to whatever value
  (\<open>val\<close> itself included); in every case the environment afterwards maps \<open>env\<close> to
  \<open>val\<close> and is otherwise unchanged. A second call on the same variable logs exactly one
  warning, naming the first value and the second, and leaves the last value set.
\<close>

theorem warn_overwrite_env_contract:
  "new_events w (warn_overwrite_env env val w) =
     (case environ w env of
        None \<Rightarrow> [EnvSet env val]
      | Some old \<Rightarrow> [LogWarning (overwrite_message env old val), EnvSet env val]) \<and>
   ((\<exists>m. LogWarning m \<in> set (new_events w (warn_overwrite_env env val w))) \<longleftrightarrow>
      env \<in> dom (environ w)) \<and>
   sublist old (overwrite_message env old val) \<and>
   sublist val (overwrite_message env old val) \<and>
   environ (warn_overwrite_env env val w) = (environ w)(env \<mapsto> val) \<and>
   new_events (warn_overwrite_env env v1 w) (warn_overwrite_env env v2 (warn_overwrite_env env v1 w)) =
     [LogWarning (overwrite_message env v1 v2), EnvSet env v2] \<and>
   environ (warn_overwrite_env env v2 (warn_overwrite_env env v1 w)) env = Some v2"
proof (intro conjI)
  have ev: "new_events w (warn_overwrite_env env val w) = guarded_write (environ w) env val"
    by (simp add: new_events_def warn_overwrite_env_trace)
  show "new_events w (warn_overwrite_env env val w) =
     (case environ w env of
        None \<Rightarrow> [EnvSet env val]
      | Some old \<Rightarrow> [LogWarning (overwrite_message env old val), EnvSet env val])"
    by (simp add: ev guarded_write_def)
  show "(\<exists>m. LogWarning m \<in> set (new_events w (warn_overwrite_env env val w))) \<longleftrightarrow>
      env \<in> dom (environ w)"
    by (auto simp: ev guarded_write_def split: option.splits)
  have "overwrite_message env old val =
          (''ENV['' @ env @ ''] = '') @ old @
          ('' will be overridden to '' @ val @ '' based on job config'')"
    by (simp add: overwrite_message_def)
  then show "sublist old (overwrite_message env old val)"
    by (simp only: sublist_appendI)
  have "overwrite_message env old val =
          (''ENV['' @ env @ ''] = '' @ old @ '' will be overridden to '') @ val @
          '' based on job config''"
    by (simp add: overwrite_message_def)
  then show "sublist val (overwrite_message env old val)"
    by (simp only: sublist_appendI)
  show "environ (warn_overwrite_env env val w) = (environ w)(env \<mapsto> val)"
    by (rule warn_overwrite_env_environ)
  show "new_events (warn_overwrite_env env v1 w)
          (warn_overwrite_env env v2 (warn_overwrite_env env v1 w)) =
     [LogWarning (overwrite_message env v1 v2), EnvSet env v2]"
    by (simp add: new_events_def warn_overwrite_env_trace warn_overwrite_env_environ
        guarded_write_def)
  show "environ (warn_overwrite_env env v2 (warn_overwrite_env env v1 w)) env = Some v2"
    by (simp add: warn_overwrite_env_environ)
qed

text \<open>
  C1 as stated fails: with the variable already set to the very value being written,
  the value is not different, yet the warning is logged.
\<close>

theorem warn_overwrite_env_same_value_counterexample:
  "environ \<lparr>environ = [''TORCH_NCCL_ASYNC_ERROR_HANDLING'' \<mapsto> ''3''], trace = ([] :: nat event list)\<rparr>
     ''TORCH_NCCL_ASYNC_ERROR_HANDLING'' = Some ''3'' \<and>
   trace (warn_overwrite_env ''TORCH_NCCL_ASYNC_ERROR_HANDLING'' ''3''
            \<lparr>environ = [''TORCH_NCCL_ASYNC_ERROR_HANDLING'' \<mapsto> ''3''], trace = ([] :: nat event list)\<rparr>) =
     [LogWarning ''ENV[TORCH_NCCL_ASYNC_ERROR_HANDLING] = 3 will be overridden to 3 based on job config'',
      EnvSet ''TORCH_NCCL_ASYNC_ERROR_HANDLING'' ''3'']"
  by (simp add: warn_overwrite_env_def environ_setitem_def logger_warning_def emit_def
      overwrite_message_def)

subsection \<open>Timeout synchronization\<close>

lemma foldl_set_pg_timeout_trace:
  "trace (foldl (\<lambda>s pg. emit (SetPgTimeout t pg) s) w gs) = trace w @ map (SetPgTimeout t) gs"
  by (induction gs arbitrary: w) simp_all

lemma foldl_set_pg_timeout_environ:
  "environ (foldl (\<lambda>s pg. emit (SetPgTimeout t pg) s) w gs) = environ w"
  by (induction gs arbitrary: w) simp_all

lemma mesh_groups_1d: "length xs = 1 \<Longrightarrow> [f (xs ! 0)] = map f xs"
  by (cases xs) simp_all

text \<open>
  C4. The calls \<open>set_pg_timeouts\<close> makes are, in order: the log line, the barrier, the
  device synchronization, then \<open>_set_pg_timeout\<close> once for every group of the mesh (for
  a one-dimensional mesh, its single group) and last for the default group \<open>None\<close>. So
  every timeout change comes after both the barrier and the synchronization. The
  environment is not touched.
\<close>

theorem set_pg_timeouts_order:
  "new_events w (set_pg_timeouts fmt timeout world_mesh w) =
     [LogInfo (''Synchronizing and adjusting timeout for all ProcessGroups to '' @ fmt timeout),
      Barrier, CudaSynchronize] @
     map (\<lambda>g. SetPgTimeout timeout (Some g)) (dim_groups world_mesh) @
     [SetPgTimeout timeout None] \<and>
   new_events w (set_pg_timeouts fmt timeout \<lparr>dim_groups = [g]\<rparr> w) =
     [LogInfo (''Synchronizing and adjusting timeout for all ProcessGroups to '' @ fmt timeout),
      Barrier, CudaSynchronize, SetPgTimeout timeout (Some g), SetPgTimeout timeout None] \<and>
   environ (set_pg_timeouts fmt timeout world_mesh w) = environ w"
proof -
  have groups: "(if ndim m = 1 then [Some (get_group m)] else map Some (get_group_all m)) =
                  map Some (dim_groups m)" for m :: "'a device_mesh"
    using mesh_groups_1d [of "dim_groups m" Some]
    by (simp add: ndim_def get_group_def get_group_all_def)
  have tr: "trace (set_pg_timeouts fmt timeout m w) =
          trace w @
          ([LogInfo (''Synchronizing and adjusting timeout for all ProcessGroups to '' @ fmt timeout),
            Barrier, CudaSynchronize] @
           map (\<lambda>g. SetPgTimeout timeout (Some g)) (dim_groups m) @
           [SetPgTimeout timeout None])" for m :: "'a device_mesh"
    unfolding set_pg_timeouts_def Let_def groups
    by (simp add: foldl_set_pg_timeout_trace set_pg_timeout_def logger_info_def barrier_def
        cuda_synchronize_def comp_def)
  have env: "environ (set_pg_timeouts fmt timeout world_mesh w) = environ w"
    unfolding set_pg_timeouts_def Let_def
    by (simp add: foldl_set_pg_timeout_environ set_pg_timeout_def logger_info_def barrier_def
        cuda_synchronize_def)
  show ?thesis
    using tr [of world_mesh] tr [of "\<lparr>dim_groups = [g]\<rparr>"] env
    by (simp add: new_events_def)
qed

subsection \<open>Distributed initialization\<close>

lemma env_names_distinct:
  "ASYNC_ERROR_HANDLING \<noteq> TRACE_BUFFER_SIZE" "ASYNC_ERROR_HANDLING \<noteq> DUMP_ON_TIMEOUT"
  "ASYNC_ERROR_HANDLING \<noteq> TRACE_FILE" "TRACE_BUFFER_SIZE \<noteq> DUMP_ON_TIMEOUT"
  "TRACE_BUFFER_SIZE \<noteq> TRACE_FILE" "DUMP_ON_TIMEOUT \<noteq> TRACE_FILE"
  "TRACE_BUFFER_SIZE \<noteq> ASYNC_ERROR_HANDLING" "DUMP_ON_TIMEOUT \<noteq> ASYNC_ERROR_HANDLING"
  "TRACE_FILE \<noteq> ASYNC_ERROR_HANDLING" "DUMP_ON_TIMEOUT \<noteq> TRACE_BUFFER_SIZE"
  "TRACE_FILE \<noteq> TRACE_BUFFER_SIZE" "TRACE_FILE \<noteq> DUMP_ON_TIMEOUT"
  by (simp_all add: ASYNC_ERROR_HANDLING_def TRACE_BUFFER_SIZE_def DUMP_ON_TIMEOUT_def
      TRACE_FILE_def)

lemma guarded_write_upd:
  "k \<noteq> k' \<Longrightarrow> guarded_write (e(k' \<mapsto> v')) k v = guarded_write e k v"
  by (simp add: guarded_write_def)

lemma guarded_write_warned:
  assumes "e k = Some old" and "EnvSet k v \<in> set (guarded_write e k' v')"
  shows "guarded_write e k' v' = [LogWarning (overwrite_message k old v), EnvSet k v]"
  using assms by (auto simp: guarded_write_def split: option.splits)

text \<open>
  Every event of one run of \<open>init_distributed\<close>. The four guarded variables are distinct,
  so each guard reads the variable as it was before the run.
\<close>

lemma init_distributed_trace:
  "trace (init_distributed cfg w) =
     trace w @
     guarded_write (environ w) ASYNC_ERROR_HANDLING SKIP_CLEANUP @
     guarded_write (environ w) TRACE_BUFFER_SIZE (py_str_int (trace_buf_size (comm cfg))) @
     (if 0 < trace_buf_size (comm cfg) then
        guarded_write (environ w) DUMP_ON_TIMEOUT ''1'' @
        [MakeDirs (dump_folder (job cfg) @ ''/comm_trace'') True] @
        guarded_write (environ w) TRACE_FILE (dump_folder (job cfg) @ ''/comm_trace/rank_'')
      else []) @
     [InitProcessGroup ''nccl'' (Timedelta (init_timeout_seconds (comm cfg))),
      EnvSet ''TORCH_NCCL_AVOID_RECORD_STREAMS'' ''1'']"
  unfolding init_distributed_def Let_def
  by (simp add: warn_overwrite_env_trace warn_overwrite_env_environ environ_setitem_def
      init_process_group_def os_makedirs_def guarded_write_upd env_names_distinct)

lemma init_distributed_environ:
  "environ (init_distributed cfg w) =
     (if 0 < trace_buf_size (comm cfg) then
        (environ w)
          (ASYNC_ERROR_HANDLING \<mapsto> SKIP_CLEANUP,
           TRACE_BUFFER_SIZE \<mapsto> py_str_int (trace_buf_size (comm cfg)),
           DUMP_ON_TIMEOUT \<mapsto> ''1'',
           TRACE_FILE \<mapsto> dump_folder (job cfg) @ ''/comm_trace/rank_'',
           ''TORCH_NCCL_AVOID_RECORD_STREAMS'' \<mapsto> ''1'')
      else
        (environ w)
          (ASYNC_ERROR_HANDLING \<mapsto> SKIP_CLEANUP,
           TRACE_BUFFER_SIZE \<mapsto> py_str_int (trace_buf_size (comm cfg)),
           ''TORCH_NCCL_AVOID_RECORD_STREAMS'' \<mapsto> ''1''))"
  unfolding init_distributed_def Let_def
  by (simp add: warn_overwrite_env_environ environ_setitem_def init_process_group_def
      os_makedirs_def)

lemma side_effects_Nil: "side_effects [] = []"
  by (simp add: side_effects_def)

lemma side_effects_Cons:
  "side_effects (e # es) = (if is_log e then side_effects es else e # side_effects es)"
  by (simp add: side_effects_def)

lemma side_effects_append: "side_effects (xs @ ys) = side_effects xs @ side_effects ys"
  by (simp add: side_effects_def)

lemma side_effects_guarded_write:
  "side_effects (guarded_write e k v) = [EnvSet k v]"
  by (simp add: guarded_write_def side_effects_Nil side_effects_Cons split: option.split)

text \<open>
  C5. The side effects of \<open>init_distributed\<close>, in order: \<open>TORCH_NCCL_ASYNC_ERROR_HANDLING\<close>
  is set to \<open>"3"\<close>; \<open>TORCH_NCCL_TRACE_BUFFER_SIZE\<close> is set to the configured size; exactly
  when that size is positive, \<open>TORCH_NCCL_DUMP_ON_TIMEOUT\<close> is set to \<open>"1"\<close>, the directory
  \<open><dump_folder>/comm_trace\<close> is created and \<open>TORCH_NCCL_DEBUG_INFO_TEMP_FILE\<close> is set to
  \<open><dump_folder>/comm_trace/rank_\<close>; the default process group is initialized with
  backend \<open>"nccl"\<close> and the configured \<open>init_timeout_seconds\<close>; last,
  \<open>TORCH_NCCL_AVOID_RECORD_STREAMS\<close> is set to \<open>"1"\<close>. Afterwards the environment holds
  the three unconditional values.
\<close>

theorem init_distributed_order:
  "side_effects (new_events w (init_distributed job_config w)) =
     [EnvSet ''TORCH_NCCL_ASYNC_ERROR_HANDLING'' ''3'',
      EnvSet ''TORCH_NCCL_TRACE_BUFFER_SIZE'' (py_str_int (trace_buf_size (comm job_config)))] @
     (if 0 < trace_buf_size (comm job_config) then
        [EnvSet ''TORCH_NCCL_DUMP_ON_TIMEOUT'' ''1'',
         MakeDirs (dump_folder (job job_config) @ ''/comm_trace'') True,
         EnvSet ''TORCH_NCCL_DEBUG_INFO_TEMP_FILE''
           (dump_folder (job job_config) @ ''/comm_trace/rank_'')]
      else []) @
     [InitProcessGroup ''nccl'' (Timedelta (init_timeout_seconds (comm job_config))),
      EnvSet ''TORCH_NCCL_AVOID_RECORD_STREAMS'' ''1''] \<and>
   environ (init_distributed job_config w) ''TORCH_NCCL_ASYNC_ERROR_HANDLING'' = Some ''3'' \<and>
   environ (init_distributed job_config w) ''TORCH_NCCL_TRACE_BUFFER_SIZE'' =
     Some (py_str_int (trace_buf_size (comm job_config))) \<and>
   environ (init_distributed job_config w) ''TORCH_NCCL_AVOID_RECORD_STREAMS'' = Some ''1''"
proof -
  have "new_events w (init_distributed job_config w) =
     guarded_write (environ w) ASYNC_ERROR_HANDLING SKIP_CLEANUP @
     guarded_write (environ w) TRACE_BUFFER_SIZE (py_str_int (trace_buf_size (comm job_config))) @
     (if 0 < trace_buf_size (comm job_config) then
        guarded_write (environ w) DUMP_ON_TIMEOUT ''1'' @
        [MakeDirs (dump_folder (job job_config) @ ''/comm_trace'') True] @
        guarded_write (environ w) TRACE_FILE (dump_folder (job job_config) @ ''/comm_trace/rank_'')
      else []) @
     [InitProcessGroup ''nccl'' (Timedelta (init_timeout_seconds (comm job_config))),
      EnvSet ''TORCH_NCCL_AVOID_RECORD_STREAMS'' ''1'']"
    by (simp add: init_distributed_trace new_events_def)
  then have order: "side_effects (new_events w (init_distributed job_config w)) =
     [EnvSet ''TORCH_NCCL_ASYNC_ERROR_HANDLING'' ''3'',
      EnvSet ''TORCH_NCCL_TRACE_BUFFER_SIZE'' (py_str_int (trace_buf_size (comm job_config)))] @
     (if 0 < trace_buf_size (comm job_config) then
        [EnvSet ''TORCH_NCCL_DUMP_ON_TIMEOUT'' ''1'',
         MakeDirs (dump_folder (job job_config) @ ''/comm_trace'') True,
         EnvSet ''TORCH_NCCL_DEBUG_INFO_TEMP_FILE''
           (dump_folder (job job_config) @ ''/comm_trace/rank_'')]
      else []) @
     [InitProcessGroup ''nccl'' (Timedelta (init_timeout_seconds (comm job_config))),
      EnvSet ''TORCH_NCCL_AVOID_RECORD_STREAMS'' ''1'']"
    by (simp add: side_effects_Nil side_effects_Cons side_effects_append
        side_effects_guarded_write ASYNC_ERROR_HANDLING_def TRACE_BUFFER_SIZE_def
        DUMP_ON_TIMEOUT_def TRACE_FILE_def SKIP_CLEANUP_def)
  have env: "environ (init_distributed job_config w) ''TORCH_NCCL_ASYNC_ERROR_HANDLING'' = Some ''3''"
    "environ (init_distributed job_config w) ''TORCH_NCCL_TRACE_BUFFER_SIZE'' =
       Some (py_str_int (trace_buf_size (comm job_config)))"
    "environ (init_distributed job_config w) ''TORCH_NCCL_AVOID_RECORD_STREAMS'' = Some ''1''"
    by (simp_all add: init_distributed_environ ASYNC_ERROR_HANDLING_def TRACE_BUFFER_SIZE_def
        DUMP_ON_TIMEOUT_def TRACE_FILE_def SKIP_CLEANUP_def)
  from order env show ?thesis by blast
qed

text \<open>
  The four sibling writes go through the overwrite guard. Every write \<open>init_distributed\<close>
  makes to a variable other than \<open>TORCH_NCCL_AVOID_RECORD_STREAMS\<close> is guarded: if the
  variable was set before the call, the warning naming its old and its new value is
  logged immediately before the write. The write to \<open>TORCH_NCCL_AVOID_RECORD_STREAMS\<close>
  is the last event, immediately after the process group is initialized.
\<close>

theorem init_distributed_guarded_writes:
  assumes "environ w k = Some old"
    and "EnvSet k v \<in> set (new_events w (init_distributed job_config w))"
    and "k \<noteq> ''TORCH_NCCL_AVOID_RECORD_STREAMS''"
  shows "(\<exists>pre post. new_events w (init_distributed job_config w) =
            pre @ [LogWarning (overwrite_message k old v), EnvSet k v] @ post) \<and>
         (\<exists>pre. new_events w (init_distributed job_config w) =
            pre @ [InitProcessGroup ''nccl'' (Timedelta (init_timeout_seconds (comm job_config))),
                   EnvSet ''TORCH_NCCL_AVOID_RECORD_STREAMS'' ''1''])"
proof -
  let ?e = "environ w"
  let ?n = "trace_buf_size (comm job_config)"
  let ?d = "dump_folder (job job_config) @ ''/comm_trace''"
  let ?A = "guarded_write ?e ASYNC_ERROR_HANDLING SKIP_CLEANUP :: 'a event list"
  let ?B = "guarded_write ?e TRACE_BUFFER_SIZE (py_str_int ?n) :: 'a event list"
  let ?C1 = "guarded_write ?e DUMP_ON_TIMEOUT ''1'' :: 'a event list"
  let ?C2 = "guarded_write ?e TRACE_FILE (?d @ ''/rank_'') :: 'a event list"
  let ?C = "(if 0 < ?n then ?C1 @ [MakeDirs ?d True] @ ?C2 else []) :: 'a event list"
  let ?T = "[InitProcessGroup ''nccl'' (Timedelta (init_timeout_seconds (comm job_config))),
             EnvSet ''TORCH_NCCL_AVOID_RECORD_STREAMS'' ''1''] :: 'a event list"
  let ?G = "[LogWarning (overwrite_message k old v), EnvSet k v] :: 'a event list"
  have ev: "new_events w (init_distributed job_config w) = ?A @ ?B @ ?C @ ?T"
    by (simp add: init_distributed_trace new_events_def)
  have direct: "\<exists>pre. new_events w (init_distributed job_config w) = pre @ ?T"
  proof
    show "new_events w (init_distributed job_config w) = (?A @ ?B @ ?C) @ ?T"
      by (simp add: ev)
  qed
  from assms(2) have "EnvSet k v \<in> set ?A \<or> EnvSet k v \<in> set ?B \<or> EnvSet k v \<in> set ?C"
    using assms(3) unfolding ev by auto
  then consider (a) "EnvSet k v \<in> set ?A" | (b) "EnvSet k v \<in> set ?B"
    | (c1) "0 < ?n" "EnvSet k v \<in> set ?C1" | (c2) "0 < ?n" "EnvSet k v \<in> set ?C2"
    by (auto split: if_splits)
  then have "\<exists>pre post. new_events w (init_distributed job_config w) = pre @ ?G @ post"
  proof cases
    case a
    then have "?A = ?G" using assms(1) by (rule guarded_write_warned [rotated])
    then have "new_events w (init_distributed job_config w) = [] @ ?G @ (?B @ ?C @ ?T)"
      by (simp add: ev)
    then show ?thesis by blast
  next
    case b
    then have "?B = ?G" using assms(1) by (rule guarded_write_warned [rotated])
    then have "new_events w (init_distributed job_config w) = ?A @ ?G @ (?C @ ?T)"
      by (simp add: ev)
    then show ?thesis by blast
  next
    case c1
    then have "?C1 = ?G" using assms(1) by (intro guarded_write_warned)
    then have "new_events w (init_distributed job_config w) =
                 (?A @ ?B) @ ?G @ ([MakeDirs ?d True] @ ?C2 @ ?T)"
      using c1(1) by (simp add: ev)
    then show ?thesis by blast
  next
    case c2
    then have "?C2 = ?G" using assms(1) by (intro guarded_write_warned)
    then have "new_events w (init_distributed job_config w) =
                 (?A @ ?B @ ?C1 @ [MakeDirs ?d True]) @ ?G @ ?T"
      using c2(1) by (simp add: ev)
    then show ?thesis by blast
  qed
  with direct show ?thesis by blast
qed

theorem init_distributed_guarded_writes_witness:
  "environ \<lparr>environ = [''TORCH_NCCL_ASYNC_ERROR_HANDLING'' \<mapsto> ''1''], trace = ([] :: nat event list)\<rparr>
     ''TORCH_NCCL_ASYNC_ERROR_HANDLING'' = Some ''1'' \<and>
   EnvSet ''TORCH_NCCL_ASYNC_ERROR_HANDLING'' ''3'' \<in>
     set (new_events
            \<lparr>environ = [''TORCH_NCCL_ASYNC_ERROR_HANDLING'' \<mapsto> ''1''], trace = ([] :: nat event list)\<rparr>
            (init_distributed
               \<lparr>comm = \<lparr>trace_buf_size = 0, init_timeout_seconds = 300\<rparr>,
                job = \<lparr>dump_folder = ''./outputs''\<rparr>\<rparr>
               \<lparr>environ = [''TORCH_NCCL_ASYNC_ERROR_HANDLING'' \<mapsto> ''1''], trace = []\<rparr>)) \<and>
   ''TORCH_NCCL_ASYNC_ERROR_HANDLING'' \<noteq> ''TORCH_NCCL_AVOID_RECORD_STREAMS'' \<and>
   (\<exists>pre post.
      new_events
        \<lparr>environ = [''TORCH_NCCL_ASYNC_ERROR_HANDLING'' \<mapsto> ''1''], trace = ([] :: nat event list)\<rparr>
        (init_distributed
           \<lparr>comm = \<lparr>trace_buf_size = 0, init_timeout_seconds = 300\<rparr>,
            job = \<lparr>dump_folder = ''./outputs''\<rparr>\<rparr>
           \<lparr>environ = [''TORCH_NCCL_ASYNC_ERROR_HANDLING'' \<mapsto> ''1''], trace = []\<rparr>) =
      pre @
      [LogWarning ''ENV[TORCH_NCCL_ASYNC_ERROR_HANDLING] = 1 will be overridden to 3 based on job config'',
       EnvSet ''TORCH_NCCL_ASYNC_ERROR_HANDLING'' ''3''] @ post)"
proof -
  let ?w = "\<lparr>environ = [''TORCH_NCCL_ASYNC_ERROR_HANDLING'' \<mapsto> ''1''], trace = ([] :: nat event list)\<rparr>"
  let ?cfg = "\<lparr>comm = \<lparr>trace_buf_size = 0, init_timeout_seconds = 300\<rparr>,
               job = \<lparr>dump_folder = ''./outputs''\<rparr>\<rparr>"
  have h1: "environ ?w ''TORCH_NCCL_ASYNC_ERROR_HANDLING'' = Some ''1''"
    by simp
  have h2: "EnvSet ''TORCH_NCCL_ASYNC_ERROR_HANDLING'' ''3'' \<in>
              set (new_events ?w (init_distributed ?cfg ?w))"
    by (simp add: new_events_def init_distributed_trace guarded_write_def
        ASYNC_ERROR_HANDLING_def SKIP_CLEANUP_def)
  have h3: "''TORCH_NCCL_ASYNC_ERROR_HANDLING'' \<noteq> ''TORCH_NCCL_AVOID_RECORD_STREAMS''"
    by simp
  have m: "overwrite_message ''TORCH_NCCL_ASYNC_ERROR_HANDLING'' ''1'' ''3'' =
             ''ENV[TORCH_NCCL_ASYNC_ERROR_HANDLING] = 1 will be overridden to 3 based on job config''"
    by (simp add: overwrite_message_def)
  from init_distributed_guarded_writes [OF h1 h2 h3] h1 h2 h3
  show ?thesis unfolding m by blast
qed

text \<open>
  C2. Every environment write of \<open>init_distributed\<close> should warn before overwriting a
  variable that is already set. The last write does not: line 93 assigns
  \<open>TORCH_NCCL_AVOID_RECORD_STREAMS\<close> directly instead of calling the guard its four
  siblings call. With that variable set to \<open>"0"\<close> before the call, the run overwrites it
  with \<open>"1"\<close> and logs no warning at all.
\<close>

theorem init_distributed_unguarded_write:
  "environ \<lparr>environ = [''TORCH_NCCL_AVOID_RECORD_STREAMS'' \<mapsto> ''0''], trace = ([] :: nat event list)\<rparr>
     ''TORCH_NCCL_AVOID_RECORD_STREAMS'' = Some ''0'' \<and>
   trace (init_distributed
            \<lparr>comm = \<lparr>trace_buf_size = 20000, init_timeout_seconds = 300\<rparr>,
             job = \<lparr>dump_folder = ''./outputs''\<rparr>\<rparr>
            \<lparr>environ = [''TORCH_NCCL_AVOID_RECORD_STREAMS'' \<mapsto> ''0''], trace = ([] :: nat event list)\<rparr>) =
     [EnvSet ''TORCH_NCCL_ASYNC_ERROR_HANDLING'' ''3'',
      EnvSet ''TORCH_NCCL_TRACE_BUFFER_SIZE'' ''20000'',
      EnvSet ''TORCH_NCCL_DUMP_ON_TIMEOUT'' ''1'',
      MakeDirs ''./outputs/comm_trace'' True,
      EnvSet ''TORCH_NCCL_DEBUG_INFO_TEMP_FILE'' ''./outputs/comm_trace/rank_'',
      InitProcessGroup ''nccl'' (Timedelta 300),
      EnvSet ''TORCH_NCCL_AVOID_RECORD_STREAMS'' ''1'']"
  by (simp add: init_distributed_trace guarded_write_def py_str_int_20000
      ASYNC_ERROR_HANDLING_def TRACE_BUFFER_SIZE_def DUMP_ON_TIMEOUT_def TRACE_FILE_def
      SKIP_CLEANUP_def)

subsection \<open>Distributed scalar reduction\<close>

text \<open>
  C3. \<open>dist_max\<close> and \<open>dist_mean\<close> hand the scalar, wrapped into a tensor on the
  accelerator, to the runtime's \<open>all_reduce\<close> under the names \<open>MAX\<close> and \<open>AVG\<close>, and
  return what it returns: the reduced tensor itself, never a plain scalar. The
  functions are annotated \<open>-> float\<close>, but no \<open>.item()\<close> is taken.
\<close>

theorem dist_reductions_return_tensor:
  "dist_max all_reduce x mesh = PyTensor (all_reduce \<lparr>item = x, device = CUDA\<rparr> ''MAX'' mesh) \<and>
   dist_mean all_reduce x mesh = PyTensor (all_reduce \<lparr>item = x, device = CUDA\<rparr> ''AVG'' mesh) \<and>
   dist_max all_reduce x mesh \<noteq> PyScalar v \<and>
   dist_mean all_reduce x mesh \<noteq> PyScalar v"
  by (simp add: dist_max_def dist_mean_def torch_tensor_def cuda_def)

end
